theory Spec2Isabelle
  imports Main
begin

section \<open>Python values, strings and exceptions\<close>

text \<open>
  The program is one Python module, \<^verbatim>\<open>lambda_function.py\<close>. A Python \<^verbatim>\<open>str\<close> is
  modelled as a \<^typ>\<open>string\<close> whose characters are the code points below 256; on these
  \<^verbatim>\<open>str.lower\<close> adds 32 to \<^verbatim>\<open>A-Z\<close> and to the capital letters of the Latin-1 block
  (192 to 222 without the multiplication sign 215) and leaves every other character alone.
\<close>

definition lower_char :: "char \<Rightarrow> char" where
  "lower_char c =
     (let n = (of_char c :: nat)
      in if (65 \<le> n \<and> n \<le> 90) \<or> (192 \<le> n \<and> n \<le> 222 \<and> n \<noteq> 215)
         then char_of (n + 32) else c)"

definition lower :: "string \<Rightarrow> string" where
  "lower s = map lower_char s"

text \<open>Python's \<^verbatim>\<open>word in message\<close> on strings: \<^verbatim>\<open>word\<close> occurs as a contiguous substring.\<close>

fun startswith :: "string \<Rightarrow> string \<Rightarrow> bool" where
  "startswith s [] = True"
| "startswith [] (c # w) = False"
| "startswith (d # s) (c # w) = (d = c \<and> startswith s w)"

fun str_in :: "string \<Rightarrow> string \<Rightarrow> bool" where
  "str_in w [] = (w = [])"
| "str_in w (d # s) = (startswith (d # s) w \<or> str_in w s)"

text \<open>Decimal rendering of an integer, as \<^verbatim>\<open>str(n)\<close> and an f-string's \<^verbatim>\<open>{n}\<close> give it.\<close>

fun str_nat :: "nat \<Rightarrow> string" where
  "str_nat n =
     (if n < 10 then [''0123456789'' ! n]
      else str_nat (n div 10) @ [''0123456789'' ! (n mod 10)])"

declare str_nat.simps [simp del]

definition str_int :: "int \<Rightarrow> string" where
  "str_int i = (if i < 0 then CHR ''-'' # str_nat (nat (- i)) else str_nat (nat i))"

text \<open>
  The values a field of a log event can hold. Only a string has a \<^verbatim>\<open>lower\<close> method; on
  any other value \<^verbatim>\<open>.lower()\<close> raises \<^verbatim>\<open>AttributeError\<close>.
\<close>

datatype pyval = PyStr string | PyInt int | PyNone

datatype py_exception = AttributeError string | KeyError string | ClientError string

text \<open>\<^verbatim>\<open>str(e)\<close>: the message of an exception; a \<^verbatim>\<open>KeyError\<close> prints its key quoted.\<close>

fun exc_str :: "py_exception \<Rightarrow> string" where
  "exc_str (AttributeError m) = m"
| "exc_str (KeyError k) = [CHR 0x27] @ k @ [CHR 0x27]"
| "exc_str (ClientError m) = m"

fun type_name :: "pyval \<Rightarrow> string" where
  "type_name (PyStr s) = ''str''"
| "type_name (PyInt i) = ''int''"
| "type_name PyNone = ''NoneType''"

fun py_lower :: "pyval \<Rightarrow> py_exception + string" where
  "py_lower (PyStr s) = Inr (lower s)"
| "py_lower v =
     Inl (AttributeError ([CHR 0x27] @ type_name v @ [CHR 0x27]
            @ '' object has no attribute '' @ [CHR 0x27] @ ''lower'' @ [CHR 0x27]))"

section \<open>The analysis: \<^verbatim>\<open>analyze_logs_simple\<close>\<close>

text \<open>
  A log entry is the dictionary \<^verbatim>\<open>fetch_recent_logs\<close> builds, with its three fixed keys;
  the analysis result is the dictionary \<^verbatim>\<open>analyze_logs_simple\<close> returns.
\<close>

record log_entry =
  timestamp :: pyval
  message :: pyval
  log_group :: string

record analysis =
  severity :: string
  issues_found :: "string list"
  recommendations :: "string list"
  summary :: string

definition error_words :: "string list" where
  "error_words = [''error'', ''exception'', ''failed'', ''critical'']"

definition warning_words :: "string list" where
  "warning_words = [''warning'', ''warn'', ''deprecated'']"

text \<open>
  The body of the loop (lines 92 to 96) on the pair of counters, and the loop itself
  (line 91). An exception raised by \<^verbatim>\<open>.lower()\<close> leaves the loop and the function.
\<close>

definition classify_entry :: "log_entry \<Rightarrow> int \<times> int \<Rightarrow> py_exception + int \<times> int" where
  "classify_entry log counts =
     (case counts of (error_count, warning_count) \<Rightarrow>
        (case py_lower (message log) of
           Inl e \<Rightarrow> Inl e
         | Inr msg \<Rightarrow>
             if list_ex (\<lambda>word. str_in word msg) error_words
             then Inr (error_count + 1, warning_count)
             else if list_ex (\<lambda>word. str_in word msg) warning_words
             then Inr (error_count, warning_count + 1)
             else Inr (error_count, warning_count)))"

fun classify_loop :: "log_entry list \<Rightarrow> int \<times> int \<Rightarrow> py_exception + int \<times> int" where
  "classify_loop [] counts = Inr counts"
| "classify_loop (log # rest) counts =
     (case classify_entry log counts of
        Inl e \<Rightarrow> Inl e
      | Inr counts' \<Rightarrow> classify_loop rest counts')"

text \<open>Lines 98 to 109: the severity and the list \<^verbatim>\<open>issues\<close>, which starts empty.\<close>

definition determine_severity :: "int \<Rightarrow> int \<Rightarrow> string \<times> string list" where
  "determine_severity error_count warning_count =
     (if error_count > 5
      then (''high'', [''High error count detected: '' @ str_int error_count @ '' errors''])
      else if error_count > 2
      then (''medium'', [''Moderate error count: '' @ str_int error_count @ '' errors''])
      else if warning_count > 10
      then (''medium'', [''Many warnings detected: '' @ str_int warning_count @ '' warnings''])
      else (''low'', []))"

text \<open>Lines 111 to 117: the list \<^verbatim>\<open>recommendations\<close>, appended to by three \<^verbatim>\<open>if\<close>s in turn.\<close>

definition recommend :: "int \<Rightarrow> int \<Rightarrow> string list" where
  "recommend error_count warning_count =
     (let r0 = [];
          r1 = (if error_count > 0
                then r0 @ [''Review error logs for root cause analysis''] else r0);
          r2 = (if warning_count > 5
                then r1 @ [''Address warning conditions to prevent issues''] else r1)
      in if r2 = [] then r2 @ [''Continue monitoring - system appears stable''] else r2)"

definition analyze_logs_simple :: "log_entry list \<Rightarrow> py_exception + analysis" where
  "analyze_logs_simple log_data =
     (case classify_loop log_data (0, 0) of
        Inl e \<Rightarrow> Inl e
      | Inr (error_count, warning_count) \<Rightarrow>
          Inr \<lparr> severity = fst (determine_severity error_count warning_count),
                issues_found = snd (determine_severity error_count warning_count),
                recommendations = recommend error_count warning_count,
                summary = ''Analyzed '' @ str_int (int (length log_data)) @ '' logs: ''
                  @ str_int error_count @ '' errors, ''
                  @ str_int warning_count @ '' warnings'' \<rparr>)"

section \<open>The response: \<^verbatim>\<open>create_response\<close>\<close>

text \<open>
  The values the handler serialises, and \<^verbatim>\<open>json.dumps\<close> with its default arguments on
  them: items are separated by a comma and a space, a key from its value by a colon and a
  space, and a string is written as \<^verbatim>\<open>ensure_ascii\<close> writes it (the quote and the
  backslash escaped, the five short escapes, any other character outside the printable
  ASCII range as a four-digit escape). A dictionary keeps its insertion order, so it is an
  association list.
\<close>

datatype json = JStr string | JInt int | JList "json list" | JDict "(string \<times> json) list"

definition escape_char :: "char \<Rightarrow> string" where
  "escape_char c =
     (let n = (of_char c :: nat) in
      if c = CHR 0x22 then [CHR 0x5C, CHR 0x22]
      else if c = CHR 0x5C then [CHR 0x5C, CHR 0x5C]
      else if c = CHR 0x0A then [CHR 0x5C, CHR ''n'']
      else if c = CHR 0x0D then [CHR 0x5C, CHR ''r'']
      else if c = CHR 0x09 then [CHR 0x5C, CHR ''t'']
      else if c = CHR 0x08 then [CHR 0x5C, CHR ''b'']
      else if c = CHR 0x0C then [CHR 0x5C, CHR ''f'']
      else if 32 \<le> n \<and> n \<le> 126 then [c]
      else [CHR 0x5C, CHR ''u'', CHR ''0'', CHR ''0'',
            ''0123456789abcdef'' ! (n div 16), ''0123456789abcdef'' ! (n mod 16)])"

definition encode_basestring_ascii :: "string \<Rightarrow> string" where
  "encode_basestring_ascii s = [CHR 0x22] @ concat (map escape_char s) @ [CHR 0x22]"

fun join :: "string \<Rightarrow> string list \<Rightarrow> string" where
  "join sep [] = []"
| "join sep [x] = x"
| "join sep (x # y # ys) = x @ sep @ join sep (y # ys)"

fun json_dumps :: "json \<Rightarrow> string" where
  "json_dumps (JStr s) = encode_basestring_ascii s"
| "json_dumps (JInt i) = str_int i"
| "json_dumps (JList xs) = ''['' @ join '', '' (map json_dumps xs) @ '']''"
| "json_dumps (JDict kvs) =
     ''{'' @ join '', '' (map (\<lambda>(k, v). encode_basestring_ascii k @ '': '' @ json_dumps v) kvs)
       @ ''}''"

text \<open>
  \<^verbatim>\<open>create_response\<close> is called with a string or with a dictionary; \<^verbatim>\<open>str\<close> of a string is
  the string itself.
\<close>

datatype response_body = BodyStr string | BodyDict "(string \<times> json) list"

record response =
  statusCode :: int
  headers :: "(string \<times> string) list"
  body :: string

definition create_response :: "int \<Rightarrow> response_body \<Rightarrow> response" where
  "create_response status_code b =
     \<lparr> statusCode = status_code,
       headers = [(''Content-Type'', ''application/json''),
                  (''Access-Control-Allow-Origin'', ''*'')],
       body = (case b of BodyDict d \<Rightarrow> json_dumps (JDict d) | BodyStr s \<Rightarrow> s) \<rparr>"

section \<open>The outside world: clients, effects\<close>

text \<open>
  The two clients the module calls are parameters of the model: what
  \<^verbatim>\<open>logs_client.filter_log_events\<close> answers for a log group (an exception, or a response
  whose \<^verbatim>\<open>events\<close> key may be missing; an event is a dictionary), and what
  \<^verbatim>\<open>cloudwatch.put_metric_data\<close> answers for a namespace and a batch. Every function that
  acts on the world returns, beside its value, the list of effects it made, in order. The
  bounds of the time window are computed from the wall clock in floating point and are left
  out of the recorded call.
\<close>

type_synonym py_dict = "(string \<times> pyval) list"

definition getitem :: "py_dict \<Rightarrow> string \<Rightarrow> py_exception + pyval" where
  "getitem d k = (case map_of d k of None \<Rightarrow> Inl (KeyError k) | Some v \<Rightarrow> Inr v)"

record metric_datum =
  MetricName :: string
  Value :: int
  Unit :: string

datatype effect =
    Print string
  | FilterLogEvents string nat
  | PutMetricData string "metric_datum list"

record env =
  filter_log_events :: "string \<Rightarrow> py_exception + py_dict list option"
  put_metric_data :: "string \<Rightarrow> metric_datum list \<Rightarrow> py_exception + unit"

section \<open>Fetching: \<^verbatim>\<open>fetch_recent_logs\<close>\<close>

text \<open>
  The inner loop (lines 67 to 72) appends to \<^verbatim>\<open>all_logs\<close> until an event lacks a key; the
  entries appended before the exception stay in the list.
\<close>

fun append_events ::
  "string \<Rightarrow> py_dict list \<Rightarrow> log_entry list \<Rightarrow> (py_exception + unit) \<times> log_entry list" where
  "append_events group_name [] all_logs = (Inr (), all_logs)"
| "append_events group_name (event # rest) all_logs =
     (case getitem event ''timestamp'' of
        Inl e \<Rightarrow> (Inl e, all_logs)
      | Inr ts \<Rightarrow>
          (case getitem event ''message'' of
             Inl e \<Rightarrow> (Inl e, all_logs)
           | Inr msg \<Rightarrow>
               append_events group_name rest
                 (all_logs @ [\<lparr> timestamp = ts, message = msg, log_group = group_name \<rparr>])))"

text \<open>
  The outer loop (lines 58 to 75): one guarded call for each log group. The state is
  \<^verbatim>\<open>all_logs\<close> and the effects so far.
\<close>

fun fetch_loop ::
  "env \<Rightarrow> string list \<Rightarrow> log_entry list \<times> effect list \<Rightarrow> log_entry list \<times> effect list" where
  "fetch_loop w [] st = st"
| "fetch_loop w (group_name # rest) (all_logs, tr) =
     (case filter_log_events w group_name of
        Inl e \<Rightarrow>
          fetch_loop w rest
            (all_logs,
             tr @ [FilterLogEvents group_name 50,
                   Print (''Could not fetch logs from '' @ group_name @ '': '' @ exc_str e)])
      | Inr resp \<Rightarrow>
          (case append_events group_name (case resp of None \<Rightarrow> [] | Some evs \<Rightarrow> evs) all_logs of
             (Inl e, all_logs') \<Rightarrow>
               fetch_loop w rest
                 (all_logs',
                  tr @ [FilterLogEvents group_name 50,
                        Print (''Could not fetch logs from '' @ group_name @ '': '' @ exc_str e)])
           | (Inr u, all_logs') \<Rightarrow>
               fetch_loop w rest (all_logs', tr @ [FilterLogEvents group_name 50])))"

definition log_groups :: "string list" where
  "log_groups = [''/aws/lambda/ai-infra-monitor'']"

text \<open>
  Line 77 returns the last 30 entries. Nothing between lines 50 and 77 raises outside the
  inner guard, so the outer handler of line 79 has no branch here.
\<close>

definition fetch_recent_logs :: "env \<Rightarrow> log_entry list \<times> effect list" where
  "fetch_recent_logs w =
     (case fetch_loop w log_groups ([], []) of
        (all_logs, tr) \<Rightarrow> (drop (length all_logs - 30) all_logs, tr))"

section \<open>Publishing: \<^verbatim>\<open>store_metrics\<close>\<close>

definition severity_map :: "(string \<times> int) list" where
  "severity_map = [(''low'', 1), (''medium'', 2), (''high'', 3), (''critical'', 4)]"

text \<open>\<^verbatim>\<open>severity_map.get(s, 1)\<close>.\<close>

definition severity_level :: "string \<Rightarrow> int" where
  "severity_level s = (case map_of severity_map s of None \<Rightarrow> 1 | Some v \<Rightarrow> v)"

definition metric_data :: "analysis \<Rightarrow> metric_datum list" where
  "metric_data a =
     [\<lparr> MetricName = ''SeverityLevel'', Value = severity_level (severity a), Unit = ''None'' \<rparr>,
      \<lparr> MetricName = ''IssuesFound'', Value = int (length (issues_found a)),
        Unit = ''Count'' \<rparr>]"

text \<open>The whole body is guarded: a failing call is printed and the function returns.\<close>

definition store_metrics :: "env \<Rightarrow> analysis \<Rightarrow> effect list" where
  "store_metrics w a =
     PutMetricData ''Infrastructure/AI-Monitor'' (metric_data a) #
     (case put_metric_data w ''Infrastructure/AI-Monitor'' (metric_data a) of
        Inl e \<Rightarrow> [Print (''Failed to store metrics: '' @ exc_str e)]
      | Inr u \<Rightarrow>
          [Print (''Metrics stored: Severity='' @ str_int (severity_level (severity a))
                  @ '', Issues='' @ str_int (int (length (issues_found a))))])"

section \<open>The handler: \<^verbatim>\<open>lambda_handler\<close>\<close>

definition analysis_json :: "analysis \<Rightarrow> json" where
  "analysis_json a =
     JDict [(''severity'', JStr (severity a)),
            (''issues_found'', JList (map JStr (issues_found a))),
            (''recommendations'', JList (map JStr (recommendations a))),
            (''summary'', JStr (summary a))]"

text \<open>
  The \<^verbatim>\<open>try\<close> block (lines 16 to 39): its value is the response it returns or the
  exception that leaves it. The arguments \<^verbatim>\<open>event\<close> and \<^verbatim>\<open>context\<close> are never read.
\<close>

definition handler_body :: "env \<Rightarrow> (py_exception + response) \<times> effect list" where
  "handler_body w =
     (case fetch_recent_logs w of
        (log_data, fetched) \<Rightarrow>
          if log_data = []
          then (Inr (create_response 200 (BodyStr ''No recent logs to analyze'')),
                Print ''Starting log analysis...'' # fetched
                  @ [Print ''No recent logs to analyze''])
          else
            (case analyze_logs_simple log_data of
               Inl e \<Rightarrow>
                 (Inl e,
                  Print ''Starting log analysis...'' # fetched
                    @ [Print (''Found '' @ str_int (int (length log_data)) @ '' log entries'')])
             | Inr analysis_result \<Rightarrow>
                 (Inr (create_response 200
                         (BodyDict [(''message'', JStr ''Log analysis completed''),
                                    (''logs_analyzed'', JInt (int (length log_data))),
                                    (''analysis'', analysis_json analysis_result)])),
                  Print ''Starting log analysis...'' # fetched
                    @ [Print (''Found '' @ str_int (int (length log_data)) @ '' log entries'')]
                    @ store_metrics w analysis_result
                    @ [Print ''Analysis completed successfully''])))"

text \<open>The \<^verbatim>\<open>except Exception\<close> clause of lines 41 to 43 around it.\<close>

definition lambda_handler :: "env \<Rightarrow> response \<times> effect list" where
  "lambda_handler w =
     (case handler_body w of
        (Inr r, tr) \<Rightarrow> (r, tr)
      | (Inl e, tr) \<Rightarrow>
          (create_response 500 (BodyStr (''Error: '' @ exc_str e)),
           tr @ [Print (''Error in lambda_handler: '' @ exc_str e)]))"

section \<open>Notions of the specification\<close>

text \<open>
  The specification's data model gives every log entry a string as its message. Its
  classifier counts the entries whose lower-cased message contains an error keyword, the
  entries that contain no error keyword but a warning keyword, and the entries that contain
  neither; these counts are defined here from the specification's words, to be compared
  with the counters of the loop.
\<close>

definition str_message :: "log_entry \<Rightarrow> bool" where
  "str_message l = (case message l of PyStr s \<Rightarrow> True | _ \<Rightarrow> False)"

definition mentions :: "string list \<Rightarrow> log_entry \<Rightarrow> bool" where
  "mentions ws l =
     (case message l of PyStr s \<Rightarrow> list_ex (\<lambda>w. str_in w (lower s)) ws | _ \<Rightarrow> False)"

definition spec_error_count :: "log_entry list \<Rightarrow> int" where
  "spec_error_count log_data =
     int (length (filter (mentions [''error'', ''exception'', ''failed'', ''critical''])
                    log_data))"

definition spec_warning_count :: "log_entry list \<Rightarrow> int" where
  "spec_warning_count log_data =
     int (length (filter
       (\<lambda>l. \<not> mentions [''error'', ''exception'', ''failed'', ''critical''] l
            \<and> mentions [''warning'', ''warn'', ''deprecated''] l) log_data))"

definition spec_neutral_count :: "log_entry list \<Rightarrow> int" where
  "spec_neutral_count log_data =
     int (length (filter
       (\<lambda>l. \<not> mentions [''error'', ''exception'', ''failed'', ''critical''] l
            \<and> \<not> mentions [''warning'', ''warn'', ''deprecated''] l) log_data))"

definition neutral :: "log_entry \<Rightarrow> bool" where
  "neutral l \<longleftrightarrow> \<not> mentions [''error'', ''exception'', ''failed'', ''critical''] l
     \<and> \<not> mentions [''warning'', ''warn'', ''deprecated''] l"

definition message_contains :: "string \<Rightarrow> log_entry \<Rightarrow> bool" where
  "message_contains w l = (case message l of PyStr s \<Rightarrow> str_in w s | _ \<Rightarrow> False)"

text \<open>An effect that is a call of the metrics store.\<close>

fun is_put_metric_data :: "effect \<Rightarrow> bool" where
  "is_put_metric_data (PutMetricData ns d) = True"
| "is_put_metric_data x = False"

section \<open>Sample inputs\<close>

definition entry_of :: "string \<Rightarrow> log_entry" where
  "entry_of m =
     \<lparr> timestamp = PyInt 0, message = PyStr m, log_group = ''/aws/lambda/ai-infra-monitor'' \<rparr>"

definition six_errors :: "log_entry list" where
  "six_errors =
     map entry_of [''Error 1'', ''Error 2'', ''disk Error'', ''Error 4'', ''Error: 5'', ''Error'']"

definition mixed_logs :: "log_entry list" where
  "mixed_logs =
     map entry_of [''Error: disk full'', ''Deprecated API call'', ''all fine'',
                   ''WARNING: job failed'']"

definition twelve_warnings :: "log_entry list" where
  "twelve_warnings = replicate 12 (entry_of ''Warning: slow response'')"

definition calm_logs :: "log_entry list" where
  "calm_logs = map entry_of [''warn: cache miss'', ''all fine'']"

definition busy_logs :: "log_entry list" where
  "busy_logs = entry_of ''warn: slow disk'' # six_errors"

definition event_of :: "pyval \<Rightarrow> py_dict" where
  "event_of m = [(''timestamp'', PyInt 1700000000000), (''message'', m)]"

definition unreachable_env :: env where
  "unreachable_env =
     \<lparr> filter_log_events = (\<lambda>g. Inl (ClientError ''ResourceNotFoundException'')),
       put_metric_data = (\<lambda>ns d. Inr ()) \<rparr>"

definition publish_fails_env :: env where
  "publish_fails_env =
     \<lparr> filter_log_events = (\<lambda>g. Inr (Some [event_of (PyStr ''request served'')])),
       put_metric_data = (\<lambda>ns d. Inl (ClientError ''AccessDenied'')) \<rparr>"

definition malformed_env :: env where
  "malformed_env =
     \<lparr> filter_log_events =
         (\<lambda>g. Inr (Some [event_of (PyStr ''request served''), event_of PyNone])),
       put_metric_data = (\<lambda>ns d. Inr ()) \<rparr>"

definition six_errors_env :: env where
  "six_errors_env =
     \<lparr> filter_log_events =
         (\<lambda>g. Inr (Some (map (\<lambda>m. event_of (PyStr m))
            [''Error 1'', ''Error 2'', ''disk Error'', ''Error 4'', ''Error: 5'', ''Error'']))),
       put_metric_data = (\<lambda>ns d. Inr ()) \<rparr>"

section \<open>Properties of the analysis\<close>

lemma str_nat_0: "str_nat 0 = ''0''"
  by (simp add: str_nat.simps)

lemma str_int_0: "str_int 0 = ''0''"
  by (simp add: str_int_def str_nat_0)

lemma startswith_iff: "startswith s w \<longleftrightarrow> (\<exists>q. s = w @ q)"
  by (induction s w rule: startswith.induct) auto

lemma str_in_iff: "str_in w s \<longleftrightarrow> (\<exists>p q. s = p @ w @ q)"
proof (induction s)
  case Nil
  then show ?case by auto
next
  case (Cons d s)
  show ?case
  proof
    assume "str_in w (d # s)"
    then consider "startswith (d # s) w" | "str_in w s" by auto
    then show "\<exists>p q. d # s = p @ w @ q"
    proof cases
      case 1
      then obtain q where "d # s = w @ q" using startswith_iff by blast
      then have "d # s = [] @ w @ q" by simp
      then show ?thesis by blast
    next
      case 2
      then obtain p q where "s = p @ w @ q" using Cons.IH by blast
      then have "d # s = (d # p) @ w @ q" by simp
      then show ?thesis by blast
    qed
  next
    assume "\<exists>p q. d # s = p @ w @ q"
    then obtain p q where pq: "d # s = p @ w @ q" by blast
    show "str_in w (d # s)"
    proof (cases p)
      case Nil
      with pq have "startswith (d # s) w" using startswith_iff by auto
      then show ?thesis by simp
    next
      case (Cons a p')
      with pq have "s = p' @ w @ q" by simp
      then have "str_in w s" using Cons.IH by blast
      then show ?thesis by simp
    qed
  qed
qed

lemma str_in_lower: "str_in w s \<Longrightarrow> str_in (lower w) (lower s)"
  unfolding str_in_iff lower_def by (metis map_append)

lemma classify_entry_str:
  "str_message l \<Longrightarrow>
   classify_entry l (ec, wc) =
     (if mentions [''error'', ''exception'', ''failed'', ''critical''] l then Inr (ec + 1, wc)
      else if mentions [''warning'', ''warn'', ''deprecated''] l then Inr (ec, wc + 1)
      else Inr (ec, wc))"
  by (cases "message l")
     (simp_all add: str_message_def classify_entry_def mentions_def error_words_def
        warning_words_def)

lemma classify_loop_counts:
  "list_all str_message log_data \<Longrightarrow>
   classify_loop log_data (ec, wc) =
     Inr (ec + spec_error_count log_data, wc + spec_warning_count log_data)"
proof (induction log_data arbitrary: ec wc)
  case Nil
  then show ?case by (simp add: spec_error_count_def spec_warning_count_def)
next
  case (Cons l rest)
  then have l: "str_message l" and rest: "list_all str_message rest" by simp_all
  show ?case
    using Cons.IH [OF rest]
    by (simp add: classify_entry_str [OF l] spec_error_count_def spec_warning_count_def)
qed

lemma spec_counts_partition:
  "spec_error_count log_data + spec_warning_count log_data + spec_neutral_count log_data
     = int (length log_data)"
  unfolding spec_error_count_def spec_warning_count_def spec_neutral_count_def
  by (induction log_data) auto

text \<open>
  C2. On every sequence of entries with string messages the loop's counters are the number
  of entries whose lower-cased message contains one of error, exception, failed, critical,
  and the number of entries that contain none of these but one of warning, warn,
  deprecated; with the number of entries that contain neither they add up to the length of
  the input. One pass of the loop body increments the error counter alone in the first
  case, the warning counter alone in the second, and no counter in the third.
\<close>

theorem classification_partitions:
  assumes "list_all str_message log_data" and "str_message log"
  shows "classify_loop log_data (0, 0)
           = Inr (spec_error_count log_data, spec_warning_count log_data)
       \<and> spec_error_count log_data + spec_warning_count log_data
           + spec_neutral_count log_data = int (length log_data)
       \<and> classify_entry log (error_count, warning_count) =
           (if mentions [''error'', ''exception'', ''failed'', ''critical''] log
            then Inr (error_count + 1, warning_count)
            else if mentions [''warning'', ''warn'', ''deprecated''] log
            then Inr (error_count, warning_count + 1)
            else Inr (error_count, warning_count))"
  using classify_loop_counts [OF assms(1), of 0 0] spec_counts_partition [of log_data]
    classify_entry_str [OF assms(2), of error_count warning_count]
  by simp

theorem classification_partitions_witness:
  "list_all str_message mixed_logs \<and> str_message (entry_of ''WARNING: job failed'')
   \<and> classify_loop mixed_logs (0, 0) = Inr (2, 1)
   \<and> spec_error_count mixed_logs = 2 \<and> spec_warning_count mixed_logs = 1
   \<and> spec_neutral_count mixed_logs = 1 \<and> int (length mixed_logs) = 4
   \<and> classify_entry (entry_of ''WARNING: job failed'') (7, 3) = Inr (8, 3)"
proof -
  have h1: "list_all str_message mixed_logs" by code_simp
  have h2: "str_message (entry_of ''WARNING: job failed'')" by code_simp
  have v1: "spec_error_count mixed_logs = 2" by code_simp
  have v2: "spec_warning_count mixed_logs = 1" by code_simp
  have v3: "int (length mixed_logs) = 4" by code_simp
  have v4: "mentions [''error'', ''exception'', ''failed'', ''critical'']
              (entry_of ''WARNING: job failed'')" by code_simp
  from classification_partitions [OF h1 h2, of 7 3] h1 h2 v1 v2 v3 v4
  show ?thesis by simp
qed

lemma analyze_str:
  "list_all str_message log_data \<Longrightarrow>
   analyze_logs_simple log_data =
     Inr \<lparr> severity =
             fst (determine_severity (spec_error_count log_data) (spec_warning_count log_data)),
           issues_found =
             snd (determine_severity (spec_error_count log_data) (spec_warning_count log_data)),
           recommendations = recommend (spec_error_count log_data) (spec_warning_count log_data),
           summary = ''Analyzed '' @ str_int (int (length log_data)) @ '' logs: ''
             @ str_int (spec_error_count log_data) @ '' errors, ''
             @ str_int (spec_warning_count log_data) @ '' warnings'' \<rparr>"
  using classify_loop_counts [of log_data 0 0] by (simp add: analyze_logs_simple_def)

lemma str_int_6: "str_int 6 = ''6''"
  by (simp add: str_int_def str_nat.simps)

lemma lower_Error: "lower ''Error'' = ''error''"
  by code_simp

lemma contains_Error_mentions:
  "message_contains ''Error'' l \<Longrightarrow> mentions [''error'', ''exception'', ''failed'', ''critical''] l"
  using str_in_lower [of "''Error''"]
  by (cases "message l") (simp_all add: message_contains_def mentions_def lower_Error)

lemma scenario_counts:
  assumes six: "length (filter (message_contains ''Error'') log_data) = 6"
      and rest: "list_all (\<lambda>l. message_contains ''Error'' l \<or> neutral l) log_data"
  shows "spec_error_count log_data = 6" and "spec_warning_count log_data = 0"
proof -
  have "filter (mentions [''error'', ''exception'', ''failed'', ''critical'']) log_data
          = filter (message_contains ''Error'') log_data"
    using rest
    by (intro filter_cong refl) (auto simp: list_all_iff neutral_def dest: contains_Error_mentions)
  then show "spec_error_count log_data = 6"
    using six by (simp add: spec_error_count_def)
  have "filter (\<lambda>l. \<not> mentions [''error'', ''exception'', ''failed'', ''critical''] l
                   \<and> mentions [''warning'', ''warn'', ''deprecated''] l) log_data = []"
    using rest
    by (auto simp: filter_empty_conv list_all_iff neutral_def dest: contains_Error_mentions)
  then show "spec_warning_count log_data = 0"
    by (simp add: spec_warning_count_def)
qed

text \<open>
  C1. On every sequence of entries with string messages the severity and the issue list
  follow the decision table, read top to bottom with the first match winning: more than 5
  errors give high, more than 2 errors give medium, more than 10 warnings give medium,
  anything else gives low with no issue. In particular, when exactly six entries contain
  the word Error and every other entry matches no keyword, the severity is high, the single
  issue reports 6 errors and the single recommendation is to review the error logs.
\<close>

theorem severity_decision_table:
  assumes "list_all str_message log_data"
  shows "\<exists>a. analyze_logs_simple log_data = Inr a
      \<and> (severity a, issues_found a) =
          (if spec_error_count log_data > 5
           then (''high'', [''High error count detected: ''
                              @ str_int (spec_error_count log_data) @ '' errors''])
           else if spec_error_count log_data > 2
           then (''medium'', [''Moderate error count: ''
                                @ str_int (spec_error_count log_data) @ '' errors''])
           else if spec_warning_count log_data > 10
           then (''medium'', [''Many warnings detected: ''
                                @ str_int (spec_warning_count log_data) @ '' warnings''])
           else (''low'', []))
      \<and> (length (filter (message_contains ''Error'') log_data) = 6
           \<and> list_all (\<lambda>l. message_contains ''Error'' l \<or> neutral l) log_data
         \<longrightarrow> severity a = ''high''
             \<and> issues_found a = [''High error count detected: 6 errors'']
             \<and> recommendations a = [''Review error logs for root cause analysis''])"
proof -
  let ?ec = "spec_error_count log_data" and ?wc = "spec_warning_count log_data"
  obtain a where a: "analyze_logs_simple log_data = Inr a"
    and sev: "severity a = fst (determine_severity ?ec ?wc)"
    and iss: "issues_found a = snd (determine_severity ?ec ?wc)"
    and recs: "recommendations a = recommend ?ec ?wc"
    using analyze_str [OF assms] by simp
  have table: "(severity a, issues_found a) = determine_severity ?ec ?wc"
    by (simp add: sev iss)
  have scenario: "severity a = ''high''
      \<and> issues_found a = [''High error count detected: 6 errors'']
      \<and> recommendations a = [''Review error logs for root cause analysis'']"
    if "length (filter (message_contains ''Error'') log_data) = 6"
      and "list_all (\<lambda>l. message_contains ''Error'' l \<or> neutral l) log_data"
    using scenario_counts [OF that]
    by (simp add: sev iss recs determine_severity_def recommend_def str_int_6)
  show ?thesis
    using a table scenario unfolding determine_severity_def by blast
qed

theorem severity_decision_table_witness:
  "list_all str_message six_errors
   \<and> length (filter (message_contains ''Error'') six_errors) = 6
   \<and> list_all (\<lambda>l. message_contains ''Error'' l \<or> neutral l) six_errors
   \<and> spec_error_count six_errors = 6 \<and> spec_warning_count six_errors = 0
   \<and> (\<exists>a. analyze_logs_simple six_errors = Inr a
        \<and> severity a = ''high''
        \<and> issues_found a = [''High error count detected: 6 errors'']
        \<and> recommendations a = [''Review error logs for root cause analysis''])"
proof -
  have h1: "list_all str_message six_errors" by code_simp
  have h2: "length (filter (message_contains ''Error'') six_errors) = 6" by code_simp
  have h3: "list_all (\<lambda>l. message_contains ''Error'' l \<or> neutral l) six_errors" by code_simp
  have h4: "spec_error_count six_errors = 6" by code_simp
  have h5: "spec_warning_count six_errors = 0" by code_simp
  from severity_decision_table [OF h1] h1 h2 h3 h4 h5 show ?thesis by blast
qed

text \<open>
  The analysis returns a result exactly on the entry lists all of whose messages are
  strings; on any other list \<^verbatim>\<open>.lower()\<close> raises.
\<close>

lemma analyze_returns_iff:
  "(\<exists>a. analyze_logs_simple log_data = Inr a) \<longleftrightarrow> list_all str_message log_data"
proof
  assume "list_all str_message log_data"
  then show "\<exists>a. analyze_logs_simple log_data = Inr a"
    using analyze_str by blast
next
  have raises: "\<not> list_all str_message xs \<Longrightarrow> \<exists>e. classify_loop xs c = Inl e" for xs c
  proof (induction xs arbitrary: c)
    case Nil
    then show ?case by simp
  next
    case (Cons l rest)
    show ?case
    proof (cases "str_message l")
      case True
      with Cons.prems have "\<not> list_all str_message rest" by simp
      from Cons.IH [OF this] True show ?thesis
        by (cases c) (simp add: classify_entry_str)
    next
      case False
      then show ?thesis
        by (cases c; cases "message l") (simp_all add: str_message_def classify_entry_def)
    qed
  qed
  assume "\<exists>a. analyze_logs_simple log_data = Inr a"
  then show "list_all str_message log_data"
    using raises [of log_data "(0, 0)"]
    by (auto simp: analyze_logs_simple_def split: sum.splits)
qed

lemma analyze_fields:
  assumes "list_all str_message log_data" and "analyze_logs_simple log_data = Inr a"
  shows "severity a
           = fst (determine_severity (spec_error_count log_data) (spec_warning_count log_data))"
    and "issues_found a
           = snd (determine_severity (spec_error_count log_data) (spec_warning_count log_data))"
    and "recommendations a
           = recommend (spec_error_count log_data) (spec_warning_count log_data)"
  using analyze_str [OF assms(1)] assms(2) by auto

lemma severity_level_values:
  "severity_level ''low'' = 1" "severity_level ''medium'' = 2" "severity_level ''high'' = 3"
  by (simp_all add: severity_level_def severity_map_def)

lemma determine_severity_mono:
  "ec \<le> ec' \<Longrightarrow>
   severity_level (fst (determine_severity ec wc))
     \<le> severity_level (fst (determine_severity ec' wc))"
  by (simp add: determine_severity_def severity_level_values)

lemma determine_severity_names:
  "fst (determine_severity ec wc) = ''low'' \<or> fst (determine_severity ec wc) = ''medium''
   \<or> fst (determine_severity ec wc) = ''high''"
  by (simp add: determine_severity_def)

text \<open>
  C6. With the warning count held fixed, the severity never goes down when the error count
  goes up: for two entry lists with string messages, equal warning counts and error counts
  in order, the severity levels of the two analyses are in the same order. The level is the
  number \<^verbatim>\<open>store_metrics\<close> gives a severity; it orders low below medium below high, and
  the analysis returns no other severity.
\<close>

theorem severity_monotone_in_error_count:
  assumes "list_all str_message xs" and "list_all str_message ys"
    and "spec_warning_count xs = spec_warning_count ys"
    and "spec_error_count xs \<le> spec_error_count ys"
  shows "\<exists>a b. analyze_logs_simple xs = Inr a \<and> analyze_logs_simple ys = Inr b
     \<and> severity_level (severity a) \<le> severity_level (severity b)
     \<and> (severity a = ''low'' \<or> severity a = ''medium'' \<or> severity a = ''high'')
     \<and> (severity b = ''low'' \<or> severity b = ''medium'' \<or> severity b = ''high'')
     \<and> severity_level ''low'' < severity_level ''medium''
     \<and> severity_level ''medium'' < severity_level ''high''"
proof -
  obtain a where a: "analyze_logs_simple xs = Inr a"
    and sa: "severity a
               = fst (determine_severity (spec_error_count xs) (spec_warning_count xs))"
    using analyze_str [OF assms(1)] by simp
  obtain b where b: "analyze_logs_simple ys = Inr b"
    and sb: "severity b
               = fst (determine_severity (spec_error_count ys) (spec_warning_count ys))"
    using analyze_str [OF assms(2)] by simp
  have "severity_level (severity a) \<le> severity_level (severity b)"
    unfolding sa sb assms(3) by (rule determine_severity_mono [OF assms(4)])
  moreover have "severity a = ''low'' \<or> severity a = ''medium'' \<or> severity a = ''high''"
    unfolding sa by (rule determine_severity_names)
  moreover have "severity b = ''low'' \<or> severity b = ''medium'' \<or> severity b = ''high''"
    unfolding sb by (rule determine_severity_names)
  ultimately show ?thesis
    using a b by (simp add: severity_level_values)
qed

theorem severity_monotone_in_error_count_witness:
  "list_all str_message calm_logs \<and> list_all str_message busy_logs
   \<and> spec_warning_count calm_logs = 1 \<and> spec_warning_count busy_logs = 1
   \<and> spec_error_count calm_logs = 0 \<and> spec_error_count busy_logs = 6
   \<and> (\<exists>a b. analyze_logs_simple calm_logs = Inr a \<and> analyze_logs_simple busy_logs = Inr b
         \<and> severity a = ''low'' \<and> severity b = ''high''
         \<and> severity_level (severity a) \<le> severity_level (severity b))"
proof -
  have h1: "list_all str_message calm_logs" by code_simp
  have h2: "list_all str_message busy_logs" by code_simp
  have w1: "spec_warning_count calm_logs = 1" by code_simp
  have w2: "spec_warning_count busy_logs = 1" by code_simp
  have e1: "spec_error_count calm_logs = 0" by code_simp
  have e2: "spec_error_count busy_logs = 6" by code_simp
  have h3: "spec_warning_count calm_logs = spec_warning_count busy_logs" by (simp add: w1 w2)
  have h4: "spec_error_count calm_logs \<le> spec_error_count busy_logs" by (simp add: e1 e2)
  obtain a b where a: "analyze_logs_simple calm_logs = Inr a"
    and b: "analyze_logs_simple busy_logs = Inr b"
    and le: "severity_level (severity a) \<le> severity_level (severity b)"
    using severity_monotone_in_error_count [OF h1 h2 h3 h4] by blast
  have "severity a = ''low''"
    using analyze_fields(1) [OF h1 a] by (simp add: e1 w1 determine_severity_def)
  moreover have "severity b = ''high''"
    using analyze_fields(1) [OF h2 b] by (simp add: e2 w2 determine_severity_def)
  ultimately show ?thesis
    using a b le h1 h2 w1 w2 e1 e2 by blast
qed


text \<open>
  C8. On every sequence of entries with string messages the issue list of the analysis has
  at most one element, so the value of the metric IssuesFound built from it is 0 or 1.
\<close>

theorem at_most_one_issue:
  assumes "list_all str_message log_data"
  shows "\<exists>a. analyze_logs_simple log_data = Inr a
     \<and> length (issues_found a) \<le> 1
     \<and> (\<exists>v. filter (\<lambda>m. MetricName m = ''IssuesFound'') (metric_data a)
               = [\<lparr> MetricName = ''IssuesFound'', Value = v, Unit = ''Count'' \<rparr>]
            \<and> (v = 0 \<or> v = 1))"
proof -
  obtain a where a: "analyze_logs_simple log_data = Inr a"
    using analyze_str [OF assms] by blast
  have len: "length (issues_found a) \<le> 1"
    unfolding analyze_fields(2) [OF assms a] by (simp add: determine_severity_def)
  have "filter (\<lambda>m. MetricName m = ''IssuesFound'') (metric_data a)
          = [\<lparr> MetricName = ''IssuesFound'', Value = int (length (issues_found a)),
               Unit = ''Count'' \<rparr>]"
    by (simp add: metric_data_def)
  moreover have "int (length (issues_found a)) = 0 \<or> int (length (issues_found a)) = 1"
    using len by linarith
  ultimately show ?thesis
    using a len by blast
qed

theorem at_most_one_issue_witness:
  "list_all str_message six_errors
   \<and> (\<exists>a. analyze_logs_simple six_errors = Inr a
        \<and> length (issues_found a) \<le> 1
        \<and> (\<exists>v. filter (\<lambda>m. MetricName m = ''IssuesFound'') (metric_data a)
                  = [\<lparr> MetricName = ''IssuesFound'', Value = v, Unit = ''Count'' \<rparr>]
               \<and> (v = 0 \<or> v = 1)))"
proof -
  have h: "list_all str_message six_errors" by code_simp
  from at_most_one_issue [OF h] h show ?thesis by blast
qed

text \<open>
  C9. On every sequence of entries with string messages the recommendation list is not
  empty and has at most two elements; it holds the stability message exactly when there is
  no error and there are at most 5 warnings, and it is then that message alone; otherwise it
  is the error recommendation, the warning recommendation, or both in this order.
\<close>

theorem recommendations_shape:
  assumes "list_all str_message log_data"
  shows "\<exists>a. analyze_logs_simple log_data = Inr a
     \<and> recommendations a \<noteq> []
     \<and> length (recommendations a) \<le> 2
     \<and> (''Continue monitoring - system appears stable'' \<in> set (recommendations a)
          \<longleftrightarrow> \<not> spec_error_count log_data > 0 \<and> \<not> spec_warning_count log_data > 5)
     \<and> recommendations a =
          (if spec_error_count log_data > 0 \<and> spec_warning_count log_data > 5
           then [''Review error logs for root cause analysis'',
                 ''Address warning conditions to prevent issues'']
           else if spec_error_count log_data > 0
           then [''Review error logs for root cause analysis'']
           else if spec_warning_count log_data > 5
           then [''Address warning conditions to prevent issues'']
           else [''Continue monitoring - system appears stable''])"
proof -
  obtain a where a: "analyze_logs_simple log_data = Inr a"
    using analyze_str [OF assms] by blast
  have r: "recommendations a
              = recommend (spec_error_count log_data) (spec_warning_count log_data)"
    by (rule analyze_fields(3) [OF assms a])
  show ?thesis
    by (rule exI [of _ a]) (simp add: a r recommend_def)
qed

theorem recommendations_shape_witness:
  "list_all str_message twelve_warnings
   \<and> spec_error_count twelve_warnings = 0 \<and> spec_warning_count twelve_warnings = 12
   \<and> (\<exists>a. analyze_logs_simple twelve_warnings = Inr a
        \<and> recommendations a = [''Address warning conditions to prevent issues''])"
proof -
  have h: "list_all str_message twelve_warnings" by code_simp
  have e: "spec_error_count twelve_warnings = 0" by code_simp
  have w: "spec_warning_count twelve_warnings = 12" by code_simp
  from recommendations_shape [OF h] h e w show ?thesis by auto
qed

text \<open>
  C10. On every sequence of entries with string messages the severity is low exactly when
  the issue list is empty, and a severity other than low comes with exactly one issue.
\<close>

theorem low_iff_no_issue:
  assumes "list_all str_message log_data"
  shows "\<exists>a. analyze_logs_simple log_data = Inr a
     \<and> (severity a = ''low'' \<longleftrightarrow> issues_found a = [])
     \<and> (severity a \<noteq> ''low'' \<longrightarrow> length (issues_found a) = 1)"
proof -
  obtain a where a: "analyze_logs_simple log_data = Inr a"
    using analyze_str [OF assms] by blast
  have sev: "severity a
      = fst (determine_severity (spec_error_count log_data) (spec_warning_count log_data))"
    and iss: "issues_found a
      = snd (determine_severity (spec_error_count log_data) (spec_warning_count log_data))"
    by (rule analyze_fields [OF assms a])+
  show ?thesis
    by (rule exI [of _ a]) (simp add: a sev iss determine_severity_def)
qed

theorem low_iff_no_issue_witness:
  "list_all str_message twelve_warnings
   \<and> (\<exists>a. analyze_logs_simple twelve_warnings = Inr a
        \<and> severity a = ''medium'' \<and> severity a \<noteq> ''low''
        \<and> issues_found a = [''Many warnings detected: 12 warnings'']
        \<and> length (issues_found a) = 1)"
proof -
  have h: "list_all str_message twelve_warnings" by code_simp
  have e: "spec_error_count twelve_warnings = 0" by code_simp
  have w: "spec_warning_count twelve_warnings = 12" by code_simp
  have s12: "str_int 12 = ''12''" by (simp add: str_int_def str_nat.simps)
  obtain a where a: "analyze_logs_simple twelve_warnings = Inr a"
    and len: "severity a \<noteq> ''low'' \<longrightarrow> length (issues_found a) = 1"
    using low_iff_no_issue [OF h] by blast
  have sev: "severity a = ''medium''"
    using analyze_fields(1) [OF h a] by (simp add: e w determine_severity_def)
  have iss: "issues_found a = [''Many warnings detected: 12 warnings'']"
    using analyze_fields(2) [OF h a] by (simp add: e w determine_severity_def s12)
  from sev have "severity a \<noteq> ''low''" by simp
  with a sev iss len h show ?thesis by blast
qed

text \<open>
  C7. On the empty sequence of entries the analysis returns severity low, no issue, the
  single recommendation to continue monitoring, and the summary of zero logs, zero errors
  and zero warnings.
\<close>

theorem analyze_empty:
  "analyze_logs_simple [] =
     Inr \<lparr> severity = ''low'', issues_found = [],
           recommendations = [''Continue monitoring - system appears stable''],
           summary = ''Analyzed 0 logs: 0 errors, 0 warnings'' \<rparr>"
  by (simp add: analyze_logs_simple_def determine_severity_def recommend_def str_int_0)

section \<open>Properties of the handler and of the response\<close>

lemma fetch_loop_no_put:
  "list_all (\<lambda>x. \<not> is_put_metric_data x) (snd st) \<Longrightarrow>
   list_all (\<lambda>x. \<not> is_put_metric_data x) (snd (fetch_loop w gs st))"
  by (induction w gs st rule: fetch_loop.induct)
     (auto split: sum.splits prod.splits)

lemma fetch_no_put: "list_all (\<lambda>x. \<not> is_put_metric_data x) (snd (fetch_recent_logs w))"
  using fetch_loop_no_put [of "([], [])" w log_groups]
  by (cases "fetch_loop w log_groups ([], [])") (simp add: fetch_recent_logs_def)

text \<open>Every run of \<^verbatim>\<open>store_metrics\<close> calls the metrics store, whatever the store answers.\<close>

lemma store_metrics_puts: "list_ex is_put_metric_data (store_metrics w a)"
  by (simp add: store_metrics_def)

text \<open>
  C3. Whenever \<^verbatim>\<open>fetch_recent_logs\<close> returns no entry, the handler returns status 200
  with the body No recent logs to analyze, and its effects are the first print, the
  effects of the fetch and the last print: no call of the metrics store is among them, so
  \<^verbatim>\<open>store_metrics\<close> did not run.
\<close>

theorem empty_fetch_short_circuits:
  assumes "fst (fetch_recent_logs w) = []"
  shows "fst (lambda_handler w) =
           \<lparr> statusCode = 200,
             headers = [(''Content-Type'', ''application/json''),
                        (''Access-Control-Allow-Origin'', ''*'')],
             body = ''No recent logs to analyze'' \<rparr>
       \<and> snd (lambda_handler w) =
           Print ''Starting log analysis...'' # snd (fetch_recent_logs w)
             @ [Print ''No recent logs to analyze'']
       \<and> list_all (\<lambda>x. \<not> is_put_metric_data x) (snd (lambda_handler w))"
proof -
  obtain tr where f: "fetch_recent_logs w = ([], tr)"
    using assms by (cases "fetch_recent_logs w") simp
  have "list_all (\<lambda>x. \<not> is_put_metric_data x) tr"
    using fetch_no_put [of w] by (simp add: f)
  then show ?thesis
    by (simp add: lambda_handler_def handler_body_def f create_response_def)
qed

theorem empty_fetch_short_circuits_witness:
  "fst (fetch_recent_logs unreachable_env) = []
   \<and> fst (lambda_handler unreachable_env) =
       \<lparr> statusCode = 200,
         headers = [(''Content-Type'', ''application/json''),
                    (''Access-Control-Allow-Origin'', ''*'')],
         body = ''No recent logs to analyze'' \<rparr>
   \<and> list_all (\<lambda>x. \<not> is_put_metric_data x) (snd (lambda_handler unreachable_env))"
proof -
  have h: "fst (fetch_recent_logs unreachable_env) = []" by code_simp
  from empty_fetch_short_circuits [OF h] h show ?thesis by blast
qed

lemma handler_body_raises_iff:
  "fst (handler_body w) = Inl e \<longleftrightarrow>
     fst (fetch_recent_logs w) \<noteq> []
     \<and> analyze_logs_simple (fst (fetch_recent_logs w)) = Inl e"
  by (cases "fetch_recent_logs w")
     (auto simp: handler_body_def split: sum.splits)

text \<open>What the metrics store answers never changes the response.\<close>

lemma response_independent_of_metrics_store:
  "fst (lambda_handler (w\<lparr> put_metric_data := p \<rparr>)) = fst (lambda_handler w)"
proof -
  have "fetch_loop (w\<lparr> put_metric_data := p \<rparr>) gs st = fetch_loop w gs st" for gs st
    by (induction w gs st rule: fetch_loop.induct) (auto split: sum.splits prod.splits)
  then have "fetch_recent_logs (w\<lparr> put_metric_data := p \<rparr>) = fetch_recent_logs w"
    by (simp add: fetch_recent_logs_def)
  then show ?thesis
    by (cases "fetch_recent_logs w")
       (auto simp: lambda_handler_def handler_body_def split: sum.splits)
qed

text \<open>
  C4, as stated, fails: an exception raised inside the pipeline by the metrics store is not
  recovered by the guards of \<^verbatim>\<open>fetch_recent_logs\<close>, and yet the handler does not answer
  500. With a log store that returns one event and a metrics store that raises, the call is
  made, its exception is printed by \<^verbatim>\<open>store_metrics\<close>, and the status is 200.
\<close>

theorem publish_failure_is_not_500:
  "put_metric_data publish_fails_env ''Infrastructure/AI-Monitor''
       [\<lparr> MetricName = ''SeverityLevel'', Value = 1, Unit = ''None'' \<rparr>,
        \<lparr> MetricName = ''IssuesFound'', Value = 0, Unit = ''Count'' \<rparr>]
     = Inl (ClientError ''AccessDenied'')
   \<and> snd (lambda_handler publish_fails_env) =
       [Print ''Starting log analysis...'',
        FilterLogEvents ''/aws/lambda/ai-infra-monitor'' 50,
        Print ''Found 1 log entries'',
        PutMetricData ''Infrastructure/AI-Monitor''
          [\<lparr> MetricName = ''SeverityLevel'', Value = 1, Unit = ''None'' \<rparr>,
           \<lparr> MetricName = ''IssuesFound'', Value = 0, Unit = ''Count'' \<rparr>],
        Print ''Failed to store metrics: AccessDenied'',
        Print ''Analysis completed successfully'']
   \<and> statusCode (fst (lambda_handler publish_fails_env)) = 200
   \<and> fst (lambda_handler publish_fails_env)
       \<noteq> create_response 500 (BodyStr (''Error: '' @ exc_str (ClientError ''AccessDenied'')))"
proof -
  have a: "put_metric_data publish_fails_env ''Infrastructure/AI-Monitor''
       [\<lparr> MetricName = ''SeverityLevel'', Value = 1, Unit = ''None'' \<rparr>,
        \<lparr> MetricName = ''IssuesFound'', Value = 0, Unit = ''Count'' \<rparr>]
     = Inl (ClientError ''AccessDenied'')"
    by (simp add: publish_fails_env_def)
  have b: "snd (lambda_handler publish_fails_env) =
       [Print ''Starting log analysis...'',
        FilterLogEvents ''/aws/lambda/ai-infra-monitor'' 50,
        Print ''Found 1 log entries'',
        PutMetricData ''Infrastructure/AI-Monitor''
          [\<lparr> MetricName = ''SeverityLevel'', Value = 1, Unit = ''None'' \<rparr>,
           \<lparr> MetricName = ''IssuesFound'', Value = 0, Unit = ''Count'' \<rparr>],
        Print ''Failed to store metrics: AccessDenied'',
        Print ''Analysis completed successfully'']"
    by code_simp
  have c: "statusCode (fst (lambda_handler publish_fails_env)) = 200"
    by code_simp
  have "fst (lambda_handler publish_fails_env)
       \<noteq> create_response 500 (BodyStr (''Error: '' @ exc_str (ClientError ''AccessDenied'')))"
  proof
    assume "fst (lambda_handler publish_fails_env)
       = create_response 500 (BodyStr (''Error: '' @ exc_str (ClientError ''AccessDenied'')))"
    then have "statusCode (fst (lambda_handler publish_fails_env)) = 500"
      by (simp add: create_response_def)
    with c show False by simp
  qed
  with a b c show ?thesis by blast
qed

text \<open>
  C4, amended. Every exception that leaves the \<^verbatim>\<open>try\<close> block, that is, one recovered
  neither by the guards of \<^verbatim>\<open>fetch_recent_logs\<close> nor by the guard of \<^verbatim>\<open>store_metrics\<close>,
  gives the response with status 500 and the body Error: followed by the exception's
  message; such an exception is one the analysis raises on a fetched, non-empty entry
  list; and the status of a response is always 200 or 500.
\<close>

theorem unrecovered_exception_gives_500:
  "(fst (handler_body w) = Inl e \<longrightarrow>
      fst (lambda_handler w) =
        \<lparr> statusCode = 500,
          headers = [(''Content-Type'', ''application/json''),
                     (''Access-Control-Allow-Origin'', ''*'')],
          body = ''Error: '' @ exc_str e \<rparr>)
   \<and> (fst (handler_body w) = Inl e \<longleftrightarrow>
        fst (fetch_recent_logs w) \<noteq> []
        \<and> analyze_logs_simple (fst (fetch_recent_logs w)) = Inl e)
   \<and> (statusCode (fst (lambda_handler w)) = 200 \<or> statusCode (fst (lambda_handler w)) = 500)"
proof -
  have A: "fst (lambda_handler w) =
        \<lparr> statusCode = 500,
          headers = [(''Content-Type'', ''application/json''),
                     (''Access-Control-Allow-Origin'', ''*'')],
          body = ''Error: '' @ exc_str e \<rparr>" if "fst (handler_body w) = Inl e"
    using that by (cases "handler_body w") (simp add: lambda_handler_def create_response_def)
  have C: "statusCode (fst (lambda_handler w)) = 200 \<or> statusCode (fst (lambda_handler w)) = 500"
    by (cases "fetch_recent_logs w")
       (auto simp: lambda_handler_def handler_body_def create_response_def split: sum.splits)
  show ?thesis
    using A C handler_body_raises_iff [of w e] by blast
qed

theorem unrecovered_exception_gives_500_witness:
  "fst (handler_body malformed_env)
     = Inl (AttributeError
              ([CHR 0x27] @ ''NoneType' object has no attribute 'lower'' @ [CHR 0x27]))
   \<and> fst (lambda_handler malformed_env) =
       \<lparr> statusCode = 500,
         headers = [(''Content-Type'', ''application/json''),
                    (''Access-Control-Allow-Origin'', ''*'')],
         body = ''Error: 'NoneType' object has no attribute 'lower'' @ [CHR 0x27] \<rparr>"
proof -
  have h: "fst (handler_body malformed_env)
     = Inl (AttributeError
              ([CHR 0x27] @ ''NoneType' object has no attribute 'lower'' @ [CHR 0x27]))"
    by code_simp
  from unrecovered_exception_gives_500
         [of malformed_env
             "AttributeError
                ([CHR 0x27] @ ''NoneType' object has no attribute 'lower'' @ [CHR 0x27])"] h
  show ?thesis by simp
qed





lemma create_response_example:
  "create_response 200 (BodyDict [(''message'', JStr ''Log analysis completed''),
                                   (''logs_analyzed'', JInt 6),
                                   (''tags'', JList [JStr ''a'', JStr ''b''])]) =
     \<lparr> statusCode = 200,
       headers = [(''Content-Type'', ''application/json''),
                  (''Access-Control-Allow-Origin'', ''*'')],
       body = ''{\"message\": \"Log analysis completed\", \"logs_analyzed\": 6, \"tags\": [\"a\", \"b\"]}'' \<rparr>"
  by code_simp

text \<open>A whole run: six events that mention Error, and a metrics store that accepts.\<close>

lemma lambda_handler_example:
  "lambda_handler six_errors_env =
     (\<lparr> statusCode = 200,
        headers = [(''Content-Type'', ''application/json''),
                   (''Access-Control-Allow-Origin'', ''*'')],
        body = ''{\"message\": \"Log analysis completed\", \"logs_analyzed\": 6, ''
          @ ''\"analysis\": {\"severity\": \"high\", ''
          @ ''\"issues_found\": [\"High error count detected: 6 errors\"], ''
          @ ''\"recommendations\": [\"Review error logs for root cause analysis\"], ''
          @ ''\"summary\": \"Analyzed 6 logs: 6 errors, 0 warnings\"}}'' \<rparr>,
      [Print ''Starting log analysis...'',
       FilterLogEvents ''/aws/lambda/ai-infra-monitor'' 50,
       Print ''Found 6 log entries'',
       PutMetricData ''Infrastructure/AI-Monitor''
         [\<lparr> MetricName = ''SeverityLevel'', Value = 3, Unit = ''None'' \<rparr>,
          \<lparr> MetricName = ''IssuesFound'', Value = 1, Unit = ''Count'' \<rparr>],
       Print ''Metrics stored: Severity=3, Issues=1'',
       Print ''Analysis completed successfully''])"
  by code_simp

end
